theory Spec2Isabelle
  imports Main
begin

section \<open>Data model of the HTTP inference client\<close>

text \<open>
  The development follows \<^verbatim>\<open>internal/shared/batch/http_inference_client.go\<close>
  (the client built on \<^verbatim>\<open>net/http\<close> with a hand-written retry loop). Byte slices
  are strings (a \<^typ>\<open>char\<close> is one byte), Go's \<^verbatim>\<open>int\<close> and
  \<^verbatim>\<open>time.Duration\<close> are \<^typ>\<open>int\<close>: the code only compares and copies them.
\<close>

type_synonym bytes = string

datatype ErrorCategory =
    ErrCategoryRateLimit
  | ErrCategoryServer
  | ErrCategoryInvalidReq
  | ErrCategoryAuth
  | ErrCategoryUnknown

text \<open>
  The value of \<^verbatim>\<open>ctx.Err()\<close>: \<^verbatim>\<open>nil\<close>, \<^verbatim>\<open>context.Canceled\<close> or
  \<^verbatim>\<open>context.DeadlineExceeded\<close>.
\<close>

datatype ctx_err = NoErr | Canceled | DeadlineExceeded

text \<open>
  A Go \<^verbatim>\<open>error\<close> value as the client stores it in \<^verbatim>\<open>RawError\<close>: an error of a
  library, known by its text, or the error of the context.
\<close>

datatype go_error = ErrorText string | ContextError ctx_err

record InferenceError =
  Category :: ErrorCategory
  Message :: string
  RawError :: "go_error option"

record 'v InferenceRequest =
  RequestID :: string
  Model :: string
  Params :: "string \<rightharpoonup> 'v"

record 'j InferenceResponse =
  RespRequestID :: string
  Response :: bytes
  RawData :: "'j option"

text \<open>
  \<^verbatim>\<open>RetryConfig\<close>. The two \<^verbatim>\<open>float64\<close> fields have the type parameter
  \<^typ>\<open>'f\<close>: only \<^verbatim>\<open>calculateBackoff\<close> reads them.
\<close>

record 'f RetryConfig =
  MaxRetries :: int
  InitialBackoff :: int
  MaxBackoff :: int
  BackoffFactor :: 'f
  JitterFraction :: 'f

text \<open>
  \<^verbatim>\<open>HTTPInferenceClient\<close>. Its \<^verbatim>\<open>*http.Client\<close> is the network: it is the
  \<open>client_Do\<close> of the attempt's environment below.
\<close>

record 'f HTTPInferenceClient =
  baseURL :: string
  apiKey :: string
  retryConfig :: "'f RetryConfig"

record http_request =
  http_method :: string
  http_url :: string
  http_header :: "string \<rightharpoonup> string"
  http_body :: bytes

text \<open>
  What \<^verbatim>\<open>client.Do\<close> followed by \<^verbatim>\<open>io.ReadAll\<close> gives: a transport error
  and no response, a response whose body cannot be read, or a status code and a body.
\<close>

datatype http_outcome =
    DoError string
  | ReadError int string
  | Completed int bytes

section \<open>Error classification\<close>

text \<open>
  Modelled from the spec: \<^verbatim>\<open>IsRetryable\<close> is a method of \<^verbatim>\<open>InferenceError\<close>
  declared in a file of the package that is not among the sources (only its callers
  and tests are). The spec: ``Only RateLimit and Server are retryable'', a function of
  the category alone.
\<close>

definition IsRetryable :: "InferenceError \<Rightarrow> bool" where
  "IsRetryable e =
     (Category e = ErrCategoryRateLimit \<or> Category e = ErrCategoryServer)"

definition mapStatusCodeToCategory :: "int \<Rightarrow> ErrorCategory" where
  "mapStatusCodeToCategory statusCode =
     (if statusCode = 400 then ErrCategoryInvalidReq
      else if statusCode = 401 \<or> statusCode = 403 then ErrCategoryAuth
      else if statusCode = 429 then ErrCategoryRateLimit
      else if statusCode = 500 \<or> statusCode = 502 \<or> statusCode = 503 \<or> statusCode = 504
        then ErrCategoryServer
      else if statusCode \<ge> 500 then ErrCategoryServer
      else ErrCategoryUnknown)"

text \<open>Decimal text of an integer, as \<^verbatim>\<open>%d\<close> prints it.\<close>

fun decimal :: "nat \<Rightarrow> string" where
  "decimal n =
     (if n < 10 then [char_of (48 + n)]
      else decimal (n div 10) @ [char_of (48 + n mod 10)])"

definition sprint_d :: "int \<Rightarrow> string" where
  "sprint_d i = (if i < 0 then CHR ''-'' # decimal (nat (- i)) else decimal (nat i))"

text \<open>
  The functions of Go's standard library that the client calls and that depend on
  nothing but their arguments:
  \<^item> \<open>json_Marshal\<close>: \<^verbatim>\<open>json.Marshal(req.Params)\<close>, the text of the error or the body;
  \<^item> \<open>http_NewRequest\<close>: \<^verbatim>\<open>http.NewRequestWithContext\<close> on a method and a URL,
    the text of its error if it fails;
  \<^item> \<open>json_Unmarshal\<close>: \<^verbatim>\<open>json.Unmarshal\<close> into an \<^verbatim>\<open>interface{}\<close>,
    the text of its error or the value it stores (\<open>None\<close> for \<^verbatim>\<open>nil\<close>, which
    the JSON text \<^verbatim>\<open>null\<close> gives);
  \<^item> \<open>json_Unmarshal_error\<close>: \<^verbatim>\<open>json.Unmarshal\<close> into the error envelope,
    \<open>None\<close> when it returns an error, else the field \<^verbatim>\<open>Error.Message\<close>.
\<close>

record ('v, 'j) stdlib =
  json_Marshal :: "(string \<rightharpoonup> 'v) \<Rightarrow> string + bytes"
  http_NewRequest :: "string \<Rightarrow> string \<Rightarrow> string option"
  json_Unmarshal :: "bytes \<Rightarrow> string + 'j option"
  json_Unmarshal_error :: "bytes \<Rightarrow> string option"

definition handleErrorResponse :: "('v, 'j) stdlib \<Rightarrow> int \<Rightarrow> bytes \<Rightarrow> InferenceError" where
  "handleErrorResponse L statusCode body =
     (let message =
        (case json_Unmarshal_error L body of
           None \<Rightarrow> body
         | Some m \<Rightarrow> if m \<noteq> [] then m else body);
          category = mapStatusCodeToCategory statusCode
      in \<lparr>Category = category,
          Message = ''HTTP '' @ sprint_d statusCode @ '': '' @ message,
          RawError = Some (ErrorText
            (''status code: '' @ sprint_d statusCode @ '', body: '' @ body))\<rparr>)"

section \<open>Endpoint selection\<close>

definition determineEndpoint :: "(string \<rightharpoonup> 'v) \<Rightarrow> string" where
  "determineEndpoint params =
     (if params ''messages'' \<noteq> None then ''/v1/chat/completions''
      else if params ''prompt'' \<noteq> None then ''/v1/completions''
      else ''/v1/chat/completions'')"

section \<open>One attempt\<close>

text \<open>
  What one iteration of the retry loop observes of the world outside the client:
  \<^item> \<open>client_Do\<close>: what the network answers to the request sent;
  \<^item> \<open>ctx_Err_do1\<close>, \<open>ctx_Err_do2\<close>: the two readings of \<^verbatim>\<open>ctx.Err()\<close> in
    \<^verbatim>\<open>generateOnce\<close> after \<^verbatim>\<open>client.Do\<close> has failed;
  \<^item> \<open>ctx_Err_loop\<close>: the reading of \<^verbatim>\<open>ctx.Err()\<close> in the loop, before the backoff;
  \<^item> \<open>backoff\<close>: the duration \<^verbatim>\<open>calculateBackoff\<close> returns in this iteration
    (\<^verbatim>\<open>float64\<close> arithmetic on the configuration and a draw of
    \<^verbatim>\<open>rand.Float64\<close>), which is the timer of the wait;
  \<^item> \<open>ctx_Done_first\<close>: whether \<^verbatim>\<open>ctx.Done()\<close> wins the \<^verbatim>\<open>select\<close> against
    the timer;
  \<^item> \<open>ctx_Err_wait\<close>: the reading of \<^verbatim>\<open>ctx.Err()\<close> after \<^verbatim>\<open>ctx.Done()\<close> has won.
\<close>

record attempt_io =
  client_Do :: "http_request \<Rightarrow> http_outcome"
  ctx_Err_do1 :: ctx_err
  ctx_Err_do2 :: ctx_err
  ctx_Err_loop :: ctx_err
  backoff :: int
  ctx_Done_first :: bool
  ctx_Err_wait :: ctx_err

text \<open>The request \<^verbatim>\<open>generateOnce\<close> builds and hands to \<^verbatim>\<open>client.Do\<close>.\<close>

definition newRequest ::
  "'f HTTPInferenceClient \<Rightarrow> 'v InferenceRequest \<Rightarrow> string \<Rightarrow> bytes \<Rightarrow> http_request" where
  "newRequest c req url requestBody =
     (let h0 = [''Content-Type'' \<mapsto> ''application/json''];
          h1 = (if apiKey c \<noteq> [] then h0(''Authorization'' \<mapsto> ''Bearer '' @ apiKey c)
                else h0);
          h2 = (if RequestID req \<noteq> [] then h1(''X-Request-ID'' \<mapsto> RequestID req)
                else h1)
      in \<lparr>http_method = ''POST'', http_url = url, http_header = h2,
          http_body = requestBody\<rparr>)"

text \<open>
  \<^verbatim>\<open>generateOnce\<close> returns Go's pair \<^verbatim>\<open>(*InferenceResponse, *InferenceError)\<close>,
  \<open>None\<close> for \<^verbatim>\<open>nil\<close>.
\<close>

definition generateOnce ::
  "('v, 'j) stdlib \<Rightarrow> 'f HTTPInferenceClient \<Rightarrow> attempt_io \<Rightarrow> 'v InferenceRequest
     \<Rightarrow> 'j InferenceResponse option \<times> InferenceError option" where
  "generateOnce L c io req =
     (let endpoint = determineEndpoint (Params req) in
      case json_Marshal L (Params req) of
        Inl e \<Rightarrow>
          (None, Some \<lparr>Category = ErrCategoryInvalidReq,
                       Message = ''failed to marshal request: '' @ e,
                       RawError = Some (ErrorText e)\<rparr>)
      | Inr requestBody \<Rightarrow>
          let url = baseURL c @ endpoint in
          case http_NewRequest L ''POST'' url of
            Some e \<Rightarrow>
              (None, Some \<lparr>Category = ErrCategoryUnknown,
                           Message = ''failed to create HTTP request: '' @ e,
                           RawError = Some (ErrorText e)\<rparr>)
          | None \<Rightarrow>
              (case client_Do io (newRequest c req url requestBody) of
                 DoError e \<Rightarrow>
                   if ctx_Err_do1 io = Canceled then
                     (None, Some \<lparr>Category = ErrCategoryUnknown,
                                  Message = ''request cancelled'',
                                  RawError = Some (ErrorText e)\<rparr>)
                   else if ctx_Err_do2 io = DeadlineExceeded then
                     (None, Some \<lparr>Category = ErrCategoryServer,
                                  Message = ''request timeout'',
                                  RawError = Some (ErrorText e)\<rparr>)
                   else
                     (None, Some \<lparr>Category = ErrCategoryServer,
                                  Message = ''failed to execute request: '' @ e,
                                  RawError = Some (ErrorText e)\<rparr>)
               | ReadError statusCode e \<Rightarrow>
                   (None, Some \<lparr>Category = ErrCategoryServer,
                                Message = ''failed to read response body: '' @ e,
                                RawError = Some (ErrorText e)\<rparr>)
               | Completed statusCode responseBody \<Rightarrow>
                   if statusCode \<noteq> 200 then
                     (None, Some (handleErrorResponse L statusCode responseBody))
                   else
                     let rawData =
                           (case json_Unmarshal L responseBody of
                              Inl e \<Rightarrow> None
                            | Inr v \<Rightarrow> v)
                     in (Some \<lparr>RespRequestID = RequestID req,
                               Response = responseBody,
                               RawData = rawData\<rparr>, None)))"

section \<open>The retry loop\<close>

text \<open>
  What a call of \<^verbatim>\<open>Generate\<close> did and returned: the number of executions of
  \<^verbatim>\<open>generateOnce\<close>, the durations it waited for, in order, and Go's pair of results.
\<close>

record 'j generated =
  attempts :: nat
  waits :: "int list"
  returned :: "'j InferenceResponse option \<times> InferenceError option"

text \<open>
  The \<^verbatim>\<open>for\<close> loop of \<^verbatim>\<open>Generate\<close>, entered with the loop variable
  \<open>attempt\<close>, the variable \<open>lastErr\<close>, and the attempts \<open>n\<close> and waits \<open>ws\<close>
  so far. Iteration \<open>k\<close> observes \<open>io k\<close>.
\<close>

function retry_loop ::
  "('v, 'j) stdlib \<Rightarrow> 'f HTTPInferenceClient \<Rightarrow> (nat \<Rightarrow> attempt_io) \<Rightarrow> 'v InferenceRequest
     \<Rightarrow> nat \<Rightarrow> InferenceError option \<Rightarrow> nat \<Rightarrow> int list \<Rightarrow> 'j generated" where
  "retry_loop L c io req attempt lastErr n ws =
     (if int attempt \<le> MaxRetries (retryConfig c) then
        (case generateOnce L c (io attempt) req of
           (resp, None) \<Rightarrow>
             \<lparr>attempts = Suc n, waits = ws, returned = (resp, None)\<rparr>
         | (resp, Some err) \<Rightarrow>
             if \<not> IsRetryable err then
               \<lparr>attempts = Suc n, waits = ws, returned = (None, Some err)\<rparr>
             else if int attempt \<ge> MaxRetries (retryConfig c) then
               \<comment> \<open>\<^verbatim>\<open>break\<close>, then \<^verbatim>\<open>return nil, lastErr\<close> with \<^verbatim>\<open>lastErr = err\<close>\<close>
               \<lparr>attempts = Suc n, waits = ws, returned = (None, Some err)\<rparr>
             else if ctx_Err_loop (io attempt) \<noteq> NoErr then
               \<lparr>attempts = Suc n, waits = ws, returned = (None, Some err)\<rparr>
             else if ctx_Done_first (io attempt) then
               \<lparr>attempts = Suc n, waits = ws @ [backoff (io attempt)],
                returned =
                  (None, Some \<lparr>Category = ErrCategoryUnknown,
                               Message = ''request cancelled during retry'',
                               RawError = Some (ContextError (ctx_Err_wait (io attempt)))\<rparr>)\<rparr>
             else
               retry_loop L c io req (Suc attempt) (Some err) (Suc n)
                 (ws @ [backoff (io attempt)]))
      else \<lparr>attempts = n, waits = ws, returned = (None, lastErr)\<rparr>)"
  by pat_completeness auto
termination
  by (relation "measure (\<lambda>(L, c, io, req, attempt, lastErr, n, ws).
        nat (MaxRetries (retryConfig c) + 1 - int attempt))") auto

declare retry_loop.simps [simp del]

definition Generate ::
  "('v, 'j) stdlib \<Rightarrow> 'f HTTPInferenceClient \<Rightarrow> (nat \<Rightarrow> attempt_io)
     \<Rightarrow> 'v InferenceRequest option \<Rightarrow> 'j generated" where
  "Generate L c io req =
     (case req of
        None \<Rightarrow>
          \<lparr>attempts = 0, waits = [],
           returned = (None, Some \<lparr>Category = ErrCategoryInvalidReq,
                                    Message = ''request cannot be nil'',
                                    RawError = None\<rparr>)\<rparr>
      | Some r \<Rightarrow>
          if MaxRetries (retryConfig c) = 0 then
            \<lparr>attempts = 1, waits = [], returned = generateOnce L c (io 0) r\<rparr>
          else retry_loop L c io r 0 None 0 [])"

section \<open>The client built on resty\<close>

text \<open>
  The second source file of the client hands the retries to the resty library. Its
  \<^verbatim>\<open>determineEndpoint\<close>, \<^verbatim>\<open>handleErrorResponse\<close> and
  \<^verbatim>\<open>mapStatusCodeToCategory\<close> are those above, word for word. What differs is
  \<^verbatim>\<open>Generate\<close>, here \<open>Generate_resty\<close>, and \<^verbatim>\<open>handleRequestError\<close>.

  \<open>resty_Post\<close> is \<^verbatim>\<open>restyReq.Post(endpoint)\<close> with the retries resty makes inside
  it: the number of requests it sent, and the text of its error or the status code and
  body of the last response. \<open>ctx_Err_req1\<close> and \<open>ctx_Err_req2\<close> are the two readings
  of \<^verbatim>\<open>ctx.Err()\<close> in \<^verbatim>\<open>handleRequestError\<close>.
\<close>

text \<open>
  The function \<^verbatim>\<open>NewHTTPInferenceClient\<close> hands to \<^verbatim>\<open>AddRetryCondition\<close> when
  retries are enabled: on the error of a request (\<open>None\<close> for \<^verbatim>\<open>nil\<close>) and the
  status code of its response, whether resty sends the request again.
\<close>

definition retryCondition :: "string option \<Rightarrow> int \<Rightarrow> bool" where
  "retryCondition err statusCode =
     (if err \<noteq> None then True
      else statusCode = 429 \<or> statusCode \<ge> 500)"

record 'v resty_request =
  resty_url :: string
  resty_header :: "string \<rightharpoonup> string"
  resty_body :: "string \<rightharpoonup> 'v"

record 'v resty_io =
  resty_Post :: "'v resty_request \<Rightarrow> nat \<times> (string + int \<times> bytes)"
  ctx_Err_req1 :: ctx_err
  ctx_Err_req2 :: ctx_err

definition handleRequestError ::
  "'v resty_io \<Rightarrow> string \<Rightarrow> 'v InferenceRequest
     \<Rightarrow> 'j InferenceResponse option \<times> InferenceError option" where
  "handleRequestError io err req =
     (if ctx_Err_req1 io = Canceled then
        (None, Some \<lparr>Category = ErrCategoryUnknown,
                     Message = ''request cancelled'',
                     RawError = Some (ErrorText err)\<rparr>)
      else if ctx_Err_req2 io = DeadlineExceeded then
        (None, Some \<lparr>Category = ErrCategoryServer,
                     Message = ''request timeout'',
                     RawError = Some (ErrorText err)\<rparr>)
      else
        (None, Some \<lparr>Category = ErrCategoryServer,
                     Message = ''failed to execute request: '' @ err,
                     RawError = Some (ErrorText err)\<rparr>))"

text \<open>\<open>Generate_resty\<close> returns the number of requests sent with Go's pair of results.\<close>

definition Generate_resty ::
  "('v, 'j) stdlib \<Rightarrow> 'f HTTPInferenceClient \<Rightarrow> 'v resty_io \<Rightarrow> 'v InferenceRequest option
     \<Rightarrow> nat \<times> ('j InferenceResponse option \<times> InferenceError option)" where
  "Generate_resty L c io req =
     (case req of
        None \<Rightarrow>
          (0, (None, Some \<lparr>Category = ErrCategoryInvalidReq,
                            Message = ''request cannot be nil'',
                            RawError = None\<rparr>))
      | Some r \<Rightarrow>
          let endpoint = determineEndpoint (Params r);
              h0 = [''Content-Type'' \<mapsto> ''application/json''];
              h1 = (if apiKey c \<noteq> [] then h0(''Authorization'' \<mapsto> ''Bearer '' @ apiKey c)
                    else h0);
              h2 = (if RequestID r \<noteq> [] then h1(''X-Request-ID'' \<mapsto> RequestID r)
                    else h1);
              restyReq = \<lparr>resty_url = endpoint, resty_header = h2, resty_body = Params r\<rparr>
          in case resty_Post io restyReq of
               (n, Inl err) \<Rightarrow> (n, handleRequestError io err r)
             | (n, Inr (statusCode, body)) \<Rightarrow>
                 if statusCode \<noteq> 200 then
                   (n, (None, Some (handleErrorResponse L statusCode body)))
                 else
                   let rawData =
                         (if length body > 0 then
                            (case json_Unmarshal L body of
                               Inl e \<Rightarrow> None
                             | Inr v \<Rightarrow> v)
                          else None)
                   in (n, (Some \<lparr>RespRequestID = RequestID r,
                                  Response = body,
                                  RawData = rawData\<rparr>, None)))"

section \<open>Concrete inputs\<close>

text \<open>
  A library whose \<^verbatim>\<open>json.Unmarshal\<close> accepts the texts \<^verbatim>\<open>{}\<close> and
  \<^verbatim>\<open>null\<close> only, a client with \<open>n\<close> retries and a backoff of 10 ms, the
  request of the package's tests, and three worlds: one that answers every request the
  same way and never cancels, one whose context is cancelled once attempt \<open>m\<close> has
  failed, and one whose deadline has passed.
\<close>

definition example_lib :: "(string, bytes) stdlib" where
  "example_lib =
     \<lparr>json_Marshal = (\<lambda>params. Inr ''{}''),
      http_NewRequest = (\<lambda>m url. None),
      json_Unmarshal =
        (\<lambda>b. if b = ''{}'' then Inr (Some b)
             else if b = ''null'' then Inr None
             else Inl ''invalid character''),
      json_Unmarshal_error = (\<lambda>b. None)\<rparr>"

definition example_client :: "int \<Rightarrow> string HTTPInferenceClient" where
  "example_client n =
     \<lparr>baseURL = ''http://localhost:8000'', apiKey = [],
      retryConfig = \<lparr>MaxRetries = n, InitialBackoff = 10000000, MaxBackoff = 60000000000,
                     BackoffFactor = ''2.0'', JitterFraction = ''0.1''\<rparr>\<rparr>"

definition example_req :: "string InferenceRequest" where
  "example_req =
     \<lparr>RequestID = ''test'', Model = ''gpt-4'', Params = [''model'' \<mapsto> ''gpt-4'']\<rparr>"

definition always :: "http_outcome \<Rightarrow> nat \<Rightarrow> attempt_io" where
  "always out k =
     \<lparr>client_Do = (\<lambda>rq. out), ctx_Err_do1 = NoErr, ctx_Err_do2 = NoErr,
      ctx_Err_loop = NoErr, backoff = 10000000, ctx_Done_first = False,
      ctx_Err_wait = NoErr\<rparr>"

definition cancelled_after :: "nat \<Rightarrow> http_outcome \<Rightarrow> nat \<Rightarrow> attempt_io" where
  "cancelled_after m out k =
     (always out k)\<lparr>ctx_Err_loop := (if k < m then NoErr else Canceled)\<rparr>"

definition deadline_exceeded :: "nat \<Rightarrow> attempt_io" where
  "deadline_exceeded k =
     \<lparr>client_Do = (\<lambda>rq. DoError ''context deadline exceeded''),
      ctx_Err_do1 = DeadlineExceeded, ctx_Err_do2 = DeadlineExceeded,
      ctx_Err_loop = DeadlineExceeded, backoff = 10000000, ctx_Done_first = True,
      ctx_Err_wait = DeadlineExceeded\<rparr>"

definition resty_cancelled :: "string resty_io" where
  "resty_cancelled =
     \<lparr>resty_Post = (\<lambda>rq. (1, Inl ''context canceled'')),
      ctx_Err_req1 = Canceled, ctx_Err_req2 = Canceled\<rparr>"

lemmas example_defs = example_lib_def example_client_def example_req_def always_def
  cancelled_after_def deadline_exceeded_def resty_cancelled_def

section \<open>Facts about one attempt and about the loop\<close>


text \<open>An iteration that is entered does not read \<open>lastErr\<close>.\<close>

lemma retry_loop_lastErr_irrelevant:
  "int attempt \<le> MaxRetries (retryConfig c) \<Longrightarrow>
   retry_loop L c io req attempt lastErr n ws = retry_loop L c io req attempt lastErr' n ws"
  by (subst retry_loop.simps, subst (2) retry_loop.simps) simp

text \<open>The five ways an iteration ends.\<close>

lemma retry_loop_success:
  assumes "int k \<le> MaxRetries (retryConfig c)"
    and "generateOnce L c (io k) req = (r, None)"
  shows "retry_loop L c io req k lastErr n ws =
         \<lparr>attempts = Suc n, waits = ws, returned = (r, None)\<rparr>"
  using assms by (subst retry_loop.simps) simp


lemma retry_loop_exhausted:
  assumes "int k = MaxRetries (retryConfig c)"
    and "generateOnce L c (io k) req = (r, Some e)"
    and "IsRetryable e"
  shows "retry_loop L c io req k lastErr n ws =
         \<lparr>attempts = Suc n, waits = ws, returned = (None, Some e)\<rparr>"
  using assms by (subst retry_loop.simps) simp


lemma retry_loop_cancelled_in_wait:
  assumes "int k < MaxRetries (retryConfig c)"
    and "generateOnce L c (io k) req = (r, Some e)"
    and "IsRetryable e"
    and "ctx_Err_loop (io k) = NoErr"
    and "ctx_Done_first (io k)"
  shows "retry_loop L c io req k lastErr n ws =
         \<lparr>attempts = Suc n, waits = ws @ [backoff (io k)],
          returned = (None, Some \<lparr>Category = ErrCategoryUnknown,
                                   Message = ''request cancelled during retry'',
                                   RawError = Some (ContextError (ctx_Err_wait (io k)))\<rparr>)\<rparr>"
  using assms by (subst retry_loop.simps) simp

lemma retry_loop_step:
  assumes "int k < MaxRetries (retryConfig c)"
    and "generateOnce L c (io k) req = (r, Some e)"
    and "IsRetryable e"
    and "ctx_Err_loop (io k) = NoErr"
    and "\<not> ctx_Done_first (io k)"
  shows "retry_loop L c io req k lastErr n ws =
         retry_loop L c io req (Suc k) (Some e) (Suc n) (ws @ [backoff (io k)])"
  using assms by (subst retry_loop.simps) simp

text \<open>
  \<open>d\<close> iterations in a row that fail with a retryable error, see a live context and
  wait for the whole backoff bring the loop from \<open>attempt\<close> to \<open>attempt + d\<close>.
\<close>

lemma retry_loop_steps:
  assumes "\<And>k. attempt \<le> k \<Longrightarrow> k < attempt + d \<Longrightarrow>
             (\<exists>r e. generateOnce L c (io k) req = (r, Some e) \<and> IsRetryable e)
             \<and> ctx_Err_loop (io k) = NoErr \<and> \<not> ctx_Done_first (io k)"
    and "int (attempt + d) \<le> MaxRetries (retryConfig c)"
  shows "retry_loop L c io req attempt lastErr n ws =
         retry_loop L c io req (attempt + d) lastErr' (n + d)
           (ws @ map (\<lambda>k. backoff (io k)) [attempt..<attempt + d])"
  using assms
proof (induction d arbitrary: lastErr')
  case 0
  then show ?case using retry_loop_lastErr_irrelevant[of attempt c] by simp
next
  case (Suc d)
  let ?ws = "ws @ map (\<lambda>k. backoff (io k)) [attempt..<attempt + d]"
  have before: "retry_loop L c io req attempt lastErr n ws =
      retry_loop L c io req (attempt + d) lastErr (n + d) ?ws"
    using Suc.IH[of lastErr] Suc.prems by simp
  obtain r e where failed: "generateOnce L c (io (attempt + d)) req = (r, Some e)" "IsRetryable e"
    and live: "ctx_Err_loop (io (attempt + d)) = NoErr" "\<not> ctx_Done_first (io (attempt + d))"
    using Suc.prems(1)[of "attempt + d"] by auto
  have more: "int (attempt + d) < MaxRetries (retryConfig c)"
    using Suc.prems(2) by simp
  have "retry_loop L c io req (attempt + d) lastErr (n + d) ?ws =
      retry_loop L c io req (Suc (attempt + d)) (Some e) (Suc (n + d))
        (?ws @ [backoff (io (attempt + d))])"
    using more failed live by (intro retry_loop_step) auto
  also have "\<dots> = retry_loop L c io req (attempt + Suc d) lastErr' (n + Suc d)
      (ws @ map (\<lambda>k. backoff (io k)) [attempt..<attempt + Suc d])"
    using retry_loop_lastErr_irrelevant[of "Suc (attempt + d)" c L io req "Some e" _ _ lastErr']
      Suc.prems(2)
    by simp
  finally show ?case using before by simp
qed


section \<open>The retry loop: exhaustion, terminal errors, cancellation\<close>

text \<open>
  C1. With \<^verbatim>\<open>MaxRetries = N > 0\<close>, if every attempt fails with a retryable error
  and the context is never cancelled (no reading of \<^verbatim>\<open>ctx.Err()\<close> in the loop is
  non-nil and \<^verbatim>\<open>ctx.Done()\<close> never wins a wait), \<^verbatim>\<open>Generate\<close> executes
  exactly \<open>N + 1\<close> attempts and returns what the last attempt returned: its error and
  no response.
\<close>

theorem Generate_retries_exhausted:
  assumes "MaxRetries (retryConfig c) = int N" and "0 < N"
    and "\<forall>k\<le>N. \<exists>e. generateOnce L c (io k) req = (None, Some e) \<and> IsRetryable e"
    and "\<forall>k<N. ctx_Err_loop (io k) = NoErr \<and> \<not> ctx_Done_first (io k)"
  shows "attempts (Generate L c io (Some req)) = N + 1
       \<and> returned (Generate L c io (Some req)) = generateOnce L c (io N) req
       \<and> fst (returned (Generate L c io (Some req))) = None"
proof -
  obtain e where last: "generateOnce L c (io N) req = (None, Some e)" "IsRetryable e"
    using assms(3) by auto
  have go_on: "(\<exists>r e. generateOnce L c (io k) req = (r, Some e) \<and> IsRetryable e)
      \<and> ctx_Err_loop (io k) = NoErr \<and> \<not> ctx_Done_first (io k)" if "k < N" for k
    using that assms(3,4) by (meson less_imp_le_nat)
  have "retry_loop L c io req 0 None 0 [] =
      retry_loop L c io req (0 + N) None (0 + N)
        ([] @ map (\<lambda>k. backoff (io k)) [0..<0 + N])"
    using go_on assms(1) by (intro retry_loop_steps) auto
  also have "\<dots> = \<lparr>attempts = Suc N, waits = map (\<lambda>k. backoff (io k)) [0..<N],
                     returned = (None, Some e)\<rparr>"
    using retry_loop_exhausted[of N c L io req None e] assms(1) last by simp
  finally show ?thesis using assms(1,2) last by (simp add: Generate_def)
qed

theorem Generate_retries_exhausted_witness:
  "attempts (Generate example_lib (example_client 2) (always (Completed 500 ''boom''))
      (Some example_req)) = 3
   \<and> returned (Generate example_lib (example_client 2) (always (Completed 500 ''boom''))
      (Some example_req)) = (None, Some (handleErrorResponse example_lib 500 ''boom''))
   \<and> Category (handleErrorResponse example_lib 500 ''boom'') = ErrCategoryServer"
proof -
  have 1: "MaxRetries (retryConfig (example_client 2)) = int 2" "0 < (2::nat)"
    by (simp_all add: example_defs)
  have 2: "\<forall>k\<le>2. \<exists>e. generateOnce example_lib (example_client 2)
      (always (Completed 500 ''boom'') k) example_req = (None, Some e) \<and> IsRetryable e"
    by (simp add: example_defs generateOnce_def handleErrorResponse_def IsRetryable_def
        mapStatusCodeToCategory_def)
  have 3: "\<forall>k<2. ctx_Err_loop (always (Completed 500 ''boom'') k) = NoErr
      \<and> \<not> ctx_Done_first (always (Completed 500 ''boom'') k)"
    by (simp add: example_defs)
  show ?thesis
    using Generate_retries_exhausted[where c = "example_client 2" and L = example_lib
        and io = "always (Completed 500 ''boom'')" and req = example_req, OF 1 2 3]
    by (simp add: example_defs generateOnce_def handleErrorResponse_def
        mapStatusCodeToCategory_def)
qed






text \<open>
  C7. With \<^verbatim>\<open>MaxRetries = 0\<close>, \<^verbatim>\<open>Generate\<close> executes exactly one attempt,
  waits for nothing, and returns what that attempt returned, whatever it is.
\<close>

theorem Generate_retry_disabled:
  assumes "MaxRetries (retryConfig c) = 0"
  shows "Generate L c io (Some req) =
           \<lparr>attempts = 1, waits = [], returned = generateOnce L c (io 0) req\<rparr>"
  using assms by (simp add: Generate_def)

theorem Generate_retry_disabled_witness:
  "Generate example_lib (example_client 0) (always (Completed 503 ''down'')) (Some example_req) =
     \<lparr>attempts = 1, waits = [],
      returned = (None, Some (handleErrorResponse example_lib 503 ''down''))\<rparr>"
proof -
  have "MaxRetries (retryConfig (example_client 0)) = 0"
    by (simp add: example_defs)
  from Generate_retry_disabled[where L = example_lib
      and io = "always (Completed 503 ''down'')" and req = example_req, OF this]
  show ?thesis by (simp add: example_defs generateOnce_def)
qed

text \<open>
  C10. For every context, configuration and library, \<^verbatim>\<open>Generate\<close> on a
  \<^verbatim>\<open>nil\<close> request executes no attempt and returns no response and an error of
  category InvalidRequest, which is not retryable; this holds for both clients.
\<close>

theorem Generate_nil_request:
  "Generate L c io None =
     \<lparr>attempts = 0, waits = [],
      returned = (None, Some \<lparr>Category = ErrCategoryInvalidReq,
                               Message = ''request cannot be nil'',
                               RawError = None\<rparr>)\<rparr>
   \<and> Generate_resty L c rio None =
       (0, (None, Some \<lparr>Category = ErrCategoryInvalidReq,
                         Message = ''request cannot be nil'',
                         RawError = None\<rparr>))
   \<and> \<not> IsRetryable \<lparr>Category = ErrCategoryInvalidReq,
                      Message = ''request cannot be nil'',
                      RawError = None\<rparr>"
  by (simp add: Generate_def Generate_resty_def IsRetryable_def)

section \<open>Classification, endpoint and one attempt\<close>

text \<open>
  C5. The classifier maps status 400 to InvalidRequest, 401 and 403 to Auth, 429 to
  RateLimit, every status from 500 on to Server and every other status to Unknown; this
  is the category of the error made from a response whose status is not 200; and an
  error is retryable exactly when its category is RateLimit or Server, so exactly for
  status 429 and the statuses from 500 on. These are also the statuses of a response on
  which the client built on resty has the request sent again.
\<close>

theorem mapStatusCodeToCategory_table:
  "mapStatusCodeToCategory n =
     (if n = 400 then ErrCategoryInvalidReq
      else if n = 401 \<or> n = 403 then ErrCategoryAuth
      else if n = 429 then ErrCategoryRateLimit
      else if n \<ge> 500 then ErrCategoryServer
      else ErrCategoryUnknown)
   \<and> Category (handleErrorResponse L n body) = mapStatusCodeToCategory n
   \<and> IsRetryable (handleErrorResponse L n body) = (n = 429 \<or> n \<ge> 500)
   \<and> IsRetryable \<lparr>Category = cat, Message = m, RawError = raw\<rparr> =
       (cat = ErrCategoryRateLimit \<or> cat = ErrCategoryServer)
   \<and> retryCondition None n =
       (mapStatusCodeToCategory n \<in> {ErrCategoryRateLimit, ErrCategoryServer})"
  by (auto simp: mapStatusCodeToCategory_def handleErrorResponse_def IsRetryable_def Let_def
      retryCondition_def)

theorem mapStatusCodeToCategory_table_witness:
  "mapStatusCodeToCategory 404 = ErrCategoryUnknown
   \<and> mapStatusCodeToCategory 507 = ErrCategoryServer
   \<and> \<not> IsRetryable (handleErrorResponse example_lib 404 ''not found'')"
  using mapStatusCodeToCategory_table[of 404 example_lib "''not found''"
      ErrCategoryUnknown "[]" None]
    mapStatusCodeToCategory_table[of 507 example_lib "[]" ErrCategoryServer "[]" None]
  by simp

text \<open>
  C8. The endpoint is a function of the parameters: with a \<^verbatim>\<open>messages\<close> key the
  chat path, also when there is a \<^verbatim>\<open>prompt\<close> key as well; otherwise with a
  \<^verbatim>\<open>prompt\<close> key the text path; otherwise the chat path.
\<close>

theorem determineEndpoint_rule:
  "determineEndpoint params =
     (if ''messages'' \<in> dom params then ''/v1/chat/completions''
      else if ''prompt'' \<in> dom params then ''/v1/completions''
      else ''/v1/chat/completions'')
   \<and> determineEndpoint (params(''prompt'' \<mapsto> p, ''messages'' \<mapsto> m)) = ''/v1/chat/completions''"
  by (auto simp: determineEndpoint_def)

theorem determineEndpoint_rule_witness:
  "determineEndpoint [''prompt'' \<mapsto> ''Once upon a time''] = ''/v1/completions''
   \<and> determineEndpoint [''prompt'' \<mapsto> ''Once upon a time'', ''messages'' \<mapsto> ''[]'']
       = ''/v1/chat/completions''
   \<and> determineEndpoint [''model'' \<mapsto> ''gpt-4''] = ''/v1/chat/completions''"
  using determineEndpoint_rule[of "[''prompt'' \<mapsto> ''Once upon a time'']"]
    determineEndpoint_rule[of "Map.empty" "''Once upon a time''" "''[]''"]
    determineEndpoint_rule[of "[''model'' \<mapsto> ''gpt-4'']"]
  by simp

text \<open>
  C6. When \<^verbatim>\<open>client.Do\<close> fails and gives no response, the attempt returns no
  response and an error whose category is Unknown, not retryable, if the context reads
  as cancelled, and Server, retryable, if it reads as past its deadline or as live. The
  same holds of \<^verbatim>\<open>handleRequestError\<close> in the client built on resty.
\<close>

theorem generateOnce_transport_failure:
  assumes "json_Marshal L (Params req) = Inr requestBody"
    and "http_NewRequest L ''POST'' (baseURL c @ determineEndpoint (Params req)) = None"
    and "client_Do io (newRequest c req (baseURL c @ determineEndpoint (Params req)) requestBody)
           = DoError txt"
  shows "(\<exists>e. generateOnce L c io req = (None, Some e)
            \<and> Category e =
                (if ctx_Err_do1 io = Canceled then ErrCategoryUnknown else ErrCategoryServer)
            \<and> IsRetryable e = (ctx_Err_do1 io \<noteq> Canceled))
       \<and> (\<exists>e. handleRequestError rio txt req = (None, Some e)
            \<and> Category e =
                (if ctx_Err_req1 rio = Canceled then ErrCategoryUnknown else ErrCategoryServer)
            \<and> IsRetryable e = (ctx_Err_req1 rio \<noteq> Canceled))"
  using assms by (simp add: generateOnce_def handleRequestError_def IsRetryable_def)

theorem generateOnce_transport_failure_witness:
  "(\<exists>e. generateOnce example_lib (example_client 3) (deadline_exceeded 0) example_req
            = (None, Some e)
       \<and> Category e = ErrCategoryServer \<and> IsRetryable e)
   \<and> (\<exists>e. handleRequestError resty_cancelled ''context deadline exceeded'' example_req
            = (None, Some e)
       \<and> Category e = ErrCategoryUnknown \<and> \<not> IsRetryable e)"
  using generateOnce_transport_failure[of example_lib example_req "''{}''" "example_client 3"
      "deadline_exceeded 0" "''context deadline exceeded''" resty_cancelled]
  by (simp add: example_defs)

text \<open>
  C9. An attempt that completes with status 200 and a body that
  \<^verbatim>\<open>json.Unmarshal\<close> rejects (the empty body is one) is a success: no error, the
  body as received in \<^verbatim>\<open>Response\<close>, and \<^verbatim>\<open>RawData\<close> nil.
\<close>

theorem generateOnce_ok_unparsed_body:
  assumes "json_Marshal L (Params req) = Inr requestBody"
    and "http_NewRequest L ''POST'' (baseURL c @ determineEndpoint (Params req)) = None"
    and "client_Do io (newRequest c req (baseURL c @ determineEndpoint (Params req)) requestBody)
           = Completed 200 body"
    and "json_Unmarshal L body = Inl parse_error"
  shows "generateOnce L c io req =
           (Some \<lparr>RespRequestID = RequestID req, Response = body, RawData = None\<rparr>, None)"
  using assms by (simp add: generateOnce_def)

theorem generateOnce_ok_unparsed_body_witness:
  "generateOnce example_lib (example_client 0) (always (Completed 200 ''{invalid json'') 0)
     example_req =
     (Some \<lparr>RespRequestID = ''test'', Response = ''{invalid json'', RawData = None\<rparr>, None)
   \<and> generateOnce example_lib (example_client 0) (always (Completed 200 []) 0) example_req =
     (Some \<lparr>RespRequestID = ''test'', Response = [], RawData = None\<rparr>, None)"
  using generateOnce_ok_unparsed_body[of example_lib example_req "''{}''" "example_client 0"
      "always (Completed 200 ''{invalid json'') 0" "''{invalid json''" "''invalid character''"]
    generateOnce_ok_unparsed_body[of example_lib example_req "''{}''" "example_client 0"
      "always (Completed 200 []) 0" "[]" "''invalid character''"]
  by (simp add: example_defs)

end
